theory Spec2Isabelle
  imports Main "HOL-Library.Monad_Syntax"
begin

section \<open>Python values and the string methods the program calls\<close>

text \<open>
  The program is a single Python script, \<^verbatim>\<open>main.py\<close>. Its text values are modelled as
  \<^typ>\<open>string\<close>, one \<^typ>\<open>char\<close> per code point, which covers the code points
  U+0000 to U+00FF. Dictionaries are association lists whose keys are distinct; a lookup
  is \<^const>\<open>map_of\<close>.

  \<open>pyval\<close> is the part of Python's (and JSON's) value universe the program handles in
  dictionaries: the info dictionary of the video service, the keyword arguments built
  from \<^verbatim>\<open>model_dump()\<close>, and the JSON object a language model returns.
\<close>

datatype pyval =
    PNone
  | PBool bool
  | PInt int
  | PStr string
  | PList "pyval list"
  | PDict "(string \<times> pyval) list"

text \<open>Truth value of a Python object, as \<^verbatim>\<open>x or y\<close> tests it.\<close>

fun truthy :: "pyval \<Rightarrow> bool" where
  "truthy PNone = False"
| "truthy (PBool b) = b"
| "truthy (PInt i) = (i \<noteq> 0)"
| "truthy (PStr s) = (s \<noteq> [])"
| "truthy (PList xs) = (xs \<noteq> [])"
| "truthy (PDict kvs) = (kvs \<noteq> [])"

definition py_or :: "pyval \<Rightarrow> pyval \<Rightarrow> pyval" where
  "py_or x y = (if truthy x then x else y)"

text \<open>\<^verbatim>\<open>d.get(k)\<close>: the value stored under \<open>k\<close>, or \<^verbatim>\<open>None\<close>.\<close>

definition dict_get :: "(string \<times> pyval) list \<Rightarrow> string \<Rightarrow> pyval" where
  "dict_get d k = (case map_of d k of None \<Rightarrow> PNone | Some v \<Rightarrow> v)"

text \<open>\<^verbatim>\<open>sep.join(xs)\<close>.\<close>

fun str_join :: "string \<Rightarrow> string list \<Rightarrow> string" where
  "str_join sep [] = []"
| "str_join sep [x] = x"
| "str_join sep (x # y # ys) = x @ sep @ str_join sep (y # ys)"

text \<open>
  \<^verbatim>\<open>s.split(sep)\<close> for a separator of one character: a scan that closes the current
  piece at every separator. The result is never empty: \<^verbatim>\<open>"".split(",")\<close> is
  \<^verbatim>\<open>[""]\<close>.
\<close>

fun split_from :: "char \<Rightarrow> string \<Rightarrow> string \<Rightarrow> string list" where
  "split_from sep cur [] = [cur]"
| "split_from sep cur (c # cs) =
     (if c = sep then cur # split_from sep [] cs else split_from sep (cur @ [c]) cs)"

definition str_split :: "string \<Rightarrow> char \<Rightarrow> string list" where
  "str_split s sep = split_from sep [] s"

text \<open>
  \<^verbatim>\<open>str.isspace\<close> on one character, for the code points below 256: the characters
  Python's \<^verbatim>\<open>strip()\<close> removes.
\<close>

definition isspace :: "char \<Rightarrow> bool" where
  "isspace c =
     (let n = (of_char c :: nat)
      in (9 \<le> n \<and> n \<le> 13) \<or> (28 \<le> n \<and> n \<le> 32) \<or> n = 133 \<or> n = 160)"

definition str_lstrip :: "string \<Rightarrow> string" where
  "str_lstrip s = dropWhile isspace s"

definition str_rstrip :: "string \<Rightarrow> string" where
  "str_rstrip s = rev (dropWhile isspace (rev s))"

definition str_strip :: "string \<Rightarrow> string" where
  "str_strip s = str_rstrip (str_lstrip s)"

section \<open>The data model\<close>

record Settings =
  openai_base_url :: string
  openai_api_key :: string
  openai_model :: string
  video_id :: string
  preferred_languages :: string

text \<open>The defaults of the class \<^verbatim>\<open>Settings\<close>.\<close>

definition default_settings :: Settings where
  "default_settings =
     \<lparr>openai_base_url = '''', openai_api_key = '''', openai_model = ''gpt-4.1-mini'',
      video_id = '''', preferred_languages = ''ko''\<rparr>"

definition preferred_languages_list :: "Settings \<Rightarrow> string list" where
  "preferred_languages_list self =
     map str_strip (str_split (preferred_languages self) CHR '','')"

record VideoInfo =
  title :: string
  author :: string
  thumbnail_url :: string

text \<open>
  The fields called \<^verbatim>\<open>type\<close>, \<^verbatim>\<open>text\<close>, \<^verbatim>\<open>context\<close>, \<^verbatim>\<open>keywords\<close>,
  \<^verbatim>\<open>image\<close> and the second \<^verbatim>\<open>name\<close> and \<^verbatim>\<open>author\<close> carry a prefix here, since
  record fields share one name space with the keywords and constants of HOL.
\<close>

record HowToStep =
  step_type :: string
  step_text :: string

record HowToSection =
  section_type :: string
  section_name :: string
  itemListElement :: "HowToStep list"

text \<open>The union \<^verbatim>\<open>HowToStep | HowToSection\<close>.\<close>

datatype instruction = Step HowToStep | Section HowToSection

record BaseRecipe =
  recipe_context :: string
  recipe_type :: string
  name :: string
  cookTime :: string
  description :: string
  recipe_keywords :: string
  prepTime :: string
  recipeCategory :: string
  recipeCuisine :: string
  recipeIngredient :: "string list"
  recipeInstructions :: "instruction list"

record Recipe = BaseRecipe +
  recipe_image :: string
  recipe_author :: string

text \<open>
  The \<^verbatim>\<open>Literal[...]\<close> annotations: a value of the class is well typed when each of
  its tag fields holds the one literal its annotation allows.
\<close>

definition HowToStep_wf :: "HowToStep \<Rightarrow> bool" where
  "HowToStep_wf s = (step_type s = ''HowToStep'')"

definition HowToSection_wf :: "HowToSection \<Rightarrow> bool" where
  "HowToSection_wf s =
     (section_type s = ''HowToSection'' \<and> list_all HowToStep_wf (itemListElement s))"

fun instruction_wf :: "instruction \<Rightarrow> bool" where
  "instruction_wf (Step s) = HowToStep_wf s"
| "instruction_wf (Section s) = HowToSection_wf s"

definition BaseRecipe_wf :: "'a BaseRecipe_scheme \<Rightarrow> bool" where
  "BaseRecipe_wf b =
     (recipe_context b = ''https://schema.org'' \<and> recipe_type b = ''Recipe'' \<and>
      list_all instruction_wf (recipeInstructions b))"

section \<open>Validation of a pydantic model\<close>

text \<open>
  Building a model from keyword arguments, or from a parsed JSON object, validates every
  field; \<open>None\<close> stands for pydantic's \<^verbatim>\<open>ValidationError\<close>. A field declared with
  an alias is read under the alias only, a key that names no field is ignored, and a field
  with a default takes it when its key is absent.
\<close>

fun validate_str :: "pyval \<Rightarrow> string option" where
  "validate_str (PStr s) = Some s"
| "validate_str _ = None"

definition validate_literal :: "string \<Rightarrow> pyval \<Rightarrow> string option" where
  "validate_literal lit v = (if v = PStr lit then Some lit else None)"

fun validate_list :: "(pyval \<Rightarrow> 'a option) \<Rightarrow> pyval \<Rightarrow> 'a list option" where
  "validate_list f (PList xs) = those (map f xs)"
| "validate_list f _ = None"

definition field_required ::
  "(string \<times> pyval) list \<Rightarrow> string \<Rightarrow> (pyval \<Rightarrow> 'a option) \<Rightarrow> 'a option" where
  "field_required d k f = (case map_of d k of None \<Rightarrow> None | Some v \<Rightarrow> f v)"

definition field_default ::
  "(string \<times> pyval) list \<Rightarrow> string \<Rightarrow> 'a \<Rightarrow> (pyval \<Rightarrow> 'a option) \<Rightarrow> 'a option" where
  "field_default d k dflt f = (case map_of d k of None \<Rightarrow> Some dflt | Some v \<Rightarrow> f v)"

fun model_validate :: "((string \<times> pyval) list \<Rightarrow> 'a option) \<Rightarrow> pyval \<Rightarrow> 'a option" where
  "model_validate f (PDict d) = f d"
| "model_validate f _ = None"

definition VideoInfo_validate :: "(string \<times> pyval) list \<Rightarrow> VideoInfo option" where
  "VideoInfo_validate d =
     do {
       t \<leftarrow> field_required d ''title'' validate_str;
       a \<leftarrow> field_required d ''author'' validate_str;
       u \<leftarrow> field_required d ''thumbnail_url'' validate_str;
       Some \<lparr>title = t, author = a, thumbnail_url = u\<rparr>
     }"

definition HowToStep_validate :: "(string \<times> pyval) list \<Rightarrow> HowToStep option" where
  "HowToStep_validate d =
     do {
       ty \<leftarrow> field_default d ''@type'' ''HowToStep'' (validate_literal ''HowToStep'');
       tx \<leftarrow> field_required d ''text'' validate_str;
       Some \<lparr>step_type = ty, step_text = tx\<rparr>
     }"

definition HowToSection_validate :: "(string \<times> pyval) list \<Rightarrow> HowToSection option" where
  "HowToSection_validate d =
     do {
       ty \<leftarrow> field_default d ''@type'' ''HowToSection'' (validate_literal ''HowToSection'');
       nm \<leftarrow> field_required d ''name'' validate_str;
       items \<leftarrow> field_required d ''itemListElement''
                  (validate_list (model_validate HowToStep_validate));
       Some \<lparr>section_type = ty, section_name = nm, itemListElement = items\<rparr>
     }"

text \<open>
  The union \<^verbatim>\<open>HowToStep | HowToSection\<close> is validated in pydantic's smart mode: each
  member is tried, and when both accept the input the one that sets more fields wins,
  which is the section (two required fields against one). Both can accept only an input
  that has no \<^verbatim>\<open>@type\<close> key.
\<close>

definition instruction_validate :: "pyval \<Rightarrow> instruction option" where
  "instruction_validate v =
     (case model_validate HowToSection_validate v of
        Some sec \<Rightarrow> Some (Section sec)
      | None \<Rightarrow> map_option Step (model_validate HowToStep_validate v))"

definition BaseRecipe_validate :: "(string \<times> pyval) list \<Rightarrow> BaseRecipe option" where
  "BaseRecipe_validate d =
     do {
       cx \<leftarrow> field_default d ''@context'' ''https://schema.org''
               (validate_literal ''https://schema.org'');
       ty \<leftarrow> field_default d ''@type'' ''Recipe'' (validate_literal ''Recipe'');
       nm \<leftarrow> field_required d ''name'' validate_str;
       ct \<leftarrow> field_required d ''cookTime'' validate_str;
       ds \<leftarrow> field_required d ''description'' validate_str;
       kw \<leftarrow> field_required d ''keywords'' validate_str;
       pt \<leftarrow> field_required d ''prepTime'' validate_str;
       ca \<leftarrow> field_required d ''recipeCategory'' validate_str;
       cu \<leftarrow> field_required d ''recipeCuisine'' validate_str;
       ig \<leftarrow> field_required d ''recipeIngredient'' (validate_list validate_str);
       ins \<leftarrow> field_required d ''recipeInstructions'' (validate_list instruction_validate);
       Some \<lparr>recipe_context = cx, recipe_type = ty, name = nm, cookTime = ct,
             description = ds, recipe_keywords = kw, prepTime = pt, recipeCategory = ca,
             recipeCuisine = cu, recipeIngredient = ig, recipeInstructions = ins\<rparr>
     }"

definition Recipe_validate :: "(string \<times> pyval) list \<Rightarrow> Recipe option" where
  "Recipe_validate d =
     do {
       b \<leftarrow> BaseRecipe_validate d;
       im \<leftarrow> field_required d ''image'' validate_str;
       au \<leftarrow> field_required d ''author'' validate_str;
       Some (BaseRecipe.extend b (Recipe.fields im au))
     }"

section \<open>Dumping a model\<close>

text \<open>
  \<^verbatim>\<open>model_dump()\<close> without \<^verbatim>\<open>by_alias\<close>: a dictionary keyed by the field names,
  nested models dumped in turn.
\<close>

definition HowToStep_model_dump :: "HowToStep \<Rightarrow> pyval" where
  "HowToStep_model_dump s =
     PDict [(''type'', PStr (step_type s)), (''text'', PStr (step_text s))]"

definition HowToSection_model_dump :: "HowToSection \<Rightarrow> pyval" where
  "HowToSection_model_dump s =
     PDict [(''type'', PStr (section_type s)), (''name'', PStr (section_name s)),
            (''itemListElement'', PList (map HowToStep_model_dump (itemListElement s)))]"

fun instruction_model_dump :: "instruction \<Rightarrow> pyval" where
  "instruction_model_dump (Step s) = HowToStep_model_dump s"
| "instruction_model_dump (Section s) = HowToSection_model_dump s"

definition BaseRecipe_model_dump :: "'a BaseRecipe_scheme \<Rightarrow> (string \<times> pyval) list" where
  "BaseRecipe_model_dump b =
     [(''context'', PStr (recipe_context b)),
      (''type'', PStr (recipe_type b)),
      (''name'', PStr (name b)),
      (''cookTime'', PStr (cookTime b)),
      (''description'', PStr (description b)),
      (''keywords'', PStr (recipe_keywords b)),
      (''prepTime'', PStr (prepTime b)),
      (''recipeCategory'', PStr (recipeCategory b)),
      (''recipeCuisine'', PStr (recipeCuisine b)),
      (''recipeIngredient'', PList (map PStr (recipeIngredient b))),
      (''recipeInstructions'', PList (map instruction_model_dump (recipeInstructions b)))]"

text \<open>
  \<^verbatim>\<open>model_dump_json(by_alias=True)\<close>: compact JSON text, the fields in declaration
  order under their aliases, nothing between the tokens. A string is quoted, with the
  quote, the backslash and the control characters escaped.
\<close>

definition hexdigit :: "nat \<Rightarrow> char" where
  "hexdigit n = ''0123456789abcdef'' ! (n mod 16)"

definition json_escape :: "char \<Rightarrow> string" where
  \<open>json_escape c =
     (if c = CHR 0x22 then [CHR 0x5C, CHR 0x22]
      else if c = CHR 0x5C then [CHR 0x5C, CHR 0x5C]
      else if c = CHR 0x08 then [CHR 0x5C, CHR ''b'']
      else if c = CHR 0x09 then [CHR 0x5C, CHR ''t'']
      else if c = CHR 0x0A then [CHR 0x5C, CHR ''n'']
      else if c = CHR 0x0C then [CHR 0x5C, CHR ''f'']
      else if c = CHR 0x0D then [CHR 0x5C, CHR ''r'']
      else if (of_char c :: nat) < 32
        then [CHR 0x5C, CHR ''u'', CHR ''0'', CHR ''0'',
              hexdigit (of_char c div 16), hexdigit (of_char c)]
      else [c])\<close>

definition json_str :: "string \<Rightarrow> string" where
  \<open>json_str s = [CHR 0x22] @ concat (map json_escape s) @ [CHR 0x22]\<close>

definition json_array :: "string list \<Rightarrow> string" where
  "json_array xs = ''['' @ str_join '','' xs @ '']''"

definition json_object :: "(string \<times> string) list \<Rightarrow> string" where
  "json_object kvs =
     ''{'' @ str_join '','' (map (\<lambda>(k, v). json_str k @ '':'' @ v) kvs) @ ''}''"

definition HowToStep_json :: "HowToStep \<Rightarrow> string" where
  "HowToStep_json s =
     json_object [(''@type'', json_str (step_type s)), (''text'', json_str (step_text s))]"

definition HowToSection_json :: "HowToSection \<Rightarrow> string" where
  "HowToSection_json s =
     json_object [(''@type'', json_str (section_type s)),
                  (''name'', json_str (section_name s)),
                  (''itemListElement'', json_array (map HowToStep_json (itemListElement s)))]"

fun instruction_json :: "instruction \<Rightarrow> string" where
  "instruction_json (Step s) = HowToStep_json s"
| "instruction_json (Section s) = HowToSection_json s"

definition model_dump_json :: "Recipe \<Rightarrow> string" where
  "model_dump_json r =
     json_object
       [(''@context'', json_str (recipe_context r)),
        (''@type'', json_str (recipe_type r)),
        (''name'', json_str (name r)),
        (''cookTime'', json_str (cookTime r)),
        (''description'', json_str (description r)),
        (''keywords'', json_str (recipe_keywords r)),
        (''prepTime'', json_str (prepTime r)),
        (''recipeCategory'', json_str (recipeCategory r)),
        (''recipeCuisine'', json_str (recipeCuisine r)),
        (''recipeIngredient'', json_array (map json_str (recipeIngredient r))),
        (''recipeInstructions'', json_array (map instruction_json (recipeInstructions r))),
        (''image'', json_str (recipe_image r)),
        (''author'', json_str (recipe_author r))]"

text \<open>
  \<^verbatim>\<open>Recipe.from_base_recipe\<close>: the dump of the base recipe, with \<^verbatim>\<open>image\<close> and
  \<^verbatim>\<open>author\<close> added, is handed to the constructor of \<^verbatim>\<open>Recipe\<close> as keyword
  arguments, and the constructor validates them.
\<close>

definition from_base_recipe :: "BaseRecipe \<Rightarrow> VideoInfo \<Rightarrow> Recipe option" where
  "from_base_recipe base_recipe video_info =
     Recipe_validate
       (BaseRecipe_model_dump base_recipe @
        [(''image'', PStr (thumbnail_url video_info)),
         (''author'', PStr (author video_info))])"

section \<open>The outside world and the trace of a run\<close>

text \<open>
  An exception is either one a library call raised, given by its message (the text
  \<^verbatim>\<open>str(e)\<close>), or pydantic's validation error. All of them are subclasses of
  \<^verbatim>\<open>Exception\<close>, so each \<^verbatim>\<open>except Exception\<close> clause catches them.
\<close>

datatype exn = Exception string | ValidationError

text \<open>
  A caption entry as \<^verbatim>\<open>to_raw_data()\<close> returns it. The program reads its
  \<^verbatim>\<open>"text"\<close> only; the two timing numbers are not part of the model.
\<close>

record entry =
  entry_text :: string

record parse_request =
  base_url :: string
  api_key :: string
  model :: string
  instructions :: string
  input :: string

text \<open>
  The three services, as functions of the arguments the program passes. Each call either
  raises or returns: the caption entries; the info dictionary, or \<^verbatim>\<open>None\<close>; the JSON
  value the language model produced for the schema of \<^verbatim>\<open>BaseRecipe\<close>, or \<^verbatim>\<open>None\<close>
  when the response carries no parsed output.
\<close>

record world =
  transcript_fetch :: "string \<Rightarrow> string list \<Rightarrow> exn + entry list"
  extract_info :: "string \<Rightarrow> exn + (string \<times> pyval) list option"
  responses_parse :: "parse_request \<Rightarrow> exn + pyval option"

text \<open>
  What a run does, in order: the service calls with their arguments, the lines printed
  (\<open>PrintExn p e\<close> is the line \<^verbatim>\<open>f"{p}{e}"\<close>), and an exception that leaves
  \<^verbatim>\<open>main\<close> uncaught.
\<close>

datatype event =
    Fetch string "string list"
  | ExtractInfo string
  | ResponsesParse parse_request
  | Print string
  | PrintExn string exn
  | Raise exn

section \<open>The pipeline\<close>

text \<open>The f-string that builds the address of the watch page.\<close>

definition watch_url :: "string \<Rightarrow> string" where
  "watch_url vid = ''https://www.youtube.com/watch?v='' @ vid"

definition get_video_info :: "world \<Rightarrow> string \<Rightarrow> event list \<times> VideoInfo option" where
  "get_video_info w vid =
     (let url = watch_url vid in
      case extract_info w url of
        Inl e \<Rightarrow> ([ExtractInfo url, PrintExn ''Error fetching video info: '' e], None)
      | Inr None \<Rightarrow> ([ExtractInfo url], None)
      | Inr (Some info) \<Rightarrow>
          (case VideoInfo_validate
                  [(''title'', py_or (dict_get info ''title'') (PStr '''')),
                   (''author'', py_or (dict_get info ''uploader'') (PStr '''')),
                   (''thumbnail_url'', py_or (dict_get info ''thumbnail'') (PStr ''''))] of
             None \<Rightarrow>
               ([ExtractInfo url, PrintExn ''Error fetching video info: '' ValidationError],
                None)
           | Some video_info \<Rightarrow> ([ExtractInfo url], Some video_info)))"

definition get_transcript :: "Settings \<Rightarrow> world \<Rightarrow> string \<Rightarrow> event list \<times> string option" where
  "get_transcript settings w vid =
     (let languages = preferred_languages_list settings @ [''en''] in
      case transcript_fetch w vid languages of
        Inl e \<Rightarrow> ([Fetch vid languages, PrintExn ''Error fetching transcript: '' e], None)
      | Inr transcript \<Rightarrow>
          ([Fetch vid languages], Some (str_join '' '' (map entry_text transcript))))"

text \<open>The prompt, a triple-quoted literal: its lines, joined by newlines.\<close>

definition instruction :: string where
  \<open>instruction = str_join [CHR 0x0A]
    ['''',
     ''    You are a professional recipe extraction assistant. Extract a cooking recipe from the given YouTube video title and transcript, then convert it into structured JSON-LD format.'',
     '''',
     ''    Follow these specific guidelines:'',
     '''',
     ''    1. **name**: Extract the exact dish name from the title or transcript'',
     ''    2. **description**: Write a 2-3 sentence description of the dish and its characteristics'',
     ''    3. **keywords**: Create relevant keywords separated by commas (cuisine type, cooking method, difficulty, main ingredients)'',
     ''    4. **recipeCategory**: Choose from: "appetizer", "main course", "side dish", "dessert", "beverage", "snack"'',
     ''    5. **recipeCuisine**: Specify cuisine type (e.g., "Korean", "Italian", "Chinese", "American", "Japanese")'',
     ''    6. **recipeIngredient**: List all ingredients with exact quantities and units as mentioned in the video'',
     ''    7. **cookTime**: Estimate total cooking time in ISO 8601 duration format (e.g., "PT30M" for 30 minutes)'',
     ''    8. **prepTime**: Estimate preparation time in ISO 8601 duration format'',
     ''    9. **recipeInstructions**: Break down cooking steps comprehensively:'',
     ''       - Use HowToStep for individual cooking actions, techniques, and specific instructions'',
     ''       - Use HowToSection to group related steps (e.g., "Preparation", "Cooking", "Finishing")'',
     ''       - Include ALL cooking tips, tricks, and helpful advice mentioned in the video'',
     ''       - Include temperature settings, heat levels, timing cues, and visual indicators'',
     ''       - Include any alternative methods or ingredient substitutions mentioned'',
     ''       - Include storage tips, serving suggestions, and troubleshooting advice'',
     ''       - Each step should be clear, actionable, and preserve the chef'' @ [CHR 0x27] @ ''s original guidance'',
     '''',
     ''    **Important rules:**'',
     ''    - Only extract recipe-related content, ignore unrelated video content'',
     ''    - If quantities are vague, use reasonable estimates'',
     ''    - Preserve original ingredient names and cooking terms'',
     ''    - If cooking/prep times aren'' @ [CHR 0x27] @ ''t mentioned, estimate based on the recipe complexity'',
     ''    - For recipeInstructions, focus on the actual cooking process, not video commentary'',
     ''    - Capture EVERY useful tip, technique, and piece of advice that would help someone cook this dish successfully'',
     ''    - Include any warnings about common mistakes or things to avoid'',
     '''',
     ''    Output must be valid JSON-LD following schema.org Recipe format.    '',
     ''    '']\<close>

text \<open>The f-string passed as \<^verbatim>\<open>input\<close>.\<close>

definition parse_input :: "string \<Rightarrow> string \<Rightarrow> string" where
  "parse_input video_title transcript =
     [CHR 0x0A] @ ''            Title: '' @ video_title @
     [CHR 0x0A] @ ''            Transcript: '' @ transcript @
     [CHR 0x0A] @ ''            ''"

text \<open>
  \<^verbatim>\<open>responses.parse\<close> validates the model's JSON against \<^verbatim>\<open>BaseRecipe\<close> and
  raises when it does not fit; that exception is caught like any other.
\<close>

definition extract_recipe ::
  "Settings \<Rightarrow> world \<Rightarrow> string \<Rightarrow> string \<Rightarrow> event list \<times> BaseRecipe option" where
  "extract_recipe settings w video_title transcript =
     (let req = \<lparr>base_url = openai_base_url settings, api_key = openai_api_key settings,
                 model = openai_model settings, instructions = instruction,
                 input = parse_input video_title transcript\<rparr> in
      case responses_parse w req of
        Inl e \<Rightarrow> ([ResponsesParse req, PrintExn ''Error extracting recipe: '' e], None)
      | Inr None \<Rightarrow> ([ResponsesParse req], None)
      | Inr (Some out) \<Rightarrow>
          (case model_validate BaseRecipe_validate out of
             None \<Rightarrow>
               ([ResponsesParse req, PrintExn ''Error extracting recipe: '' ValidationError],
                None)
           | Some base_recipe \<Rightarrow> ([ResponsesParse req], Some base_recipe)))"

definition main :: "Settings \<Rightarrow> world \<Rightarrow> event list" where
  "main settings w =
     (let vid = video_id settings in
      case get_transcript settings w vid of
        (ev1, None) \<Rightarrow> ev1 @ [Print ''Failed to retrieve transcript.'']
      | (ev1, Some transcript_text) \<Rightarrow>
          (case get_video_info w vid of
             (ev2, None) \<Rightarrow> ev1 @ ev2 @ [Print ''Failed to retrieve video information.'']
           | (ev2, Some video_info) \<Rightarrow>
               (case extract_recipe settings w (title video_info) transcript_text of
                  (ev3, None) \<Rightarrow> ev1 @ ev2 @ ev3 @ [Print ''Failed to extract recipe'']
                | (ev3, Some base_recipe) \<Rightarrow>
                    (case from_base_recipe base_recipe video_info of
                       None \<Rightarrow> ev1 @ ev2 @ ev3 @ [Raise ValidationError]
                     | Some recipe \<Rightarrow>
                         ev1 @ ev2 @ ev3 @ [Print (model_dump_json recipe)]))))"


section \<open>Observing a trace\<close>

text \<open>The language lists of the caption-retrieval calls of a trace, in order.\<close>

fun fetch_languages :: "event list \<Rightarrow> string list list" where
  "fetch_languages [] = []"
| "fetch_languages (Fetch v ls # evs) = ls # fetch_languages evs"
| "fetch_languages (ev # evs) = fetch_languages evs"

section \<open>The specification's own words\<close>

text \<open>
  The flattened transcript as the specification writes it, \<open>t1 + " " + t2 + ... + " " + tN\<close>:
  a sum taken from the left, starting at the first text. For no entries it is the empty
  text.
\<close>

definition flattened_spec :: "string list \<Rightarrow> string" where
  "flattened_spec ts =
     (case ts of [] \<Rightarrow> [] | t # rest \<Rightarrow> foldl (\<lambda>acc u. acc @ '' '' @ u) t rest)"

text \<open>
  Splitting on commas, as a description of the pieces rather than a scan: the text before
  the first comma, then the pieces of what follows it.
\<close>

fun comma_pieces :: "string \<Rightarrow> string list" where
  "comma_pieces [] = [[]]"
| "comma_pieces (c # cs) =
     (if c = CHR '','' then [] # comma_pieces cs
      else (case comma_pieces cs of [] \<Rightarrow> [[c]] | p # ps \<Rightarrow> (c # p) # ps))"

text \<open>Trimming: the whitespace at the end is removed, then the whitespace at the start.\<close>

definition trimmed :: "string \<Rightarrow> string" where
  "trimmed s = dropWhile isspace (rev (dropWhile isspace (rev s)))"

text \<open>
  A field of the info dictionary "defaulted to empty text if the underlying service omits
  it": the text stored under the key, the empty text when there is none.
\<close>

definition field_text :: "(string \<times> pyval) list \<Rightarrow> string \<Rightarrow> string" where
  "field_text info k = (case map_of info k of Some (PStr s) \<Rightarrow> s | _ \<Rightarrow> [])"

text \<open>A response of the video service gives each of the three fields as text, or not at all.\<close>

definition info_typed :: "(string \<times> pyval) list \<Rightarrow> bool" where
  "info_typed info =
     list_all (\<lambda>k. case map_of info k of
                      None \<Rightarrow> True | Some PNone \<Rightarrow> True | Some (PStr s) \<Rightarrow> True | _ \<Rightarrow> False)
       [''title'', ''uploader'', ''thumbnail'']"

text \<open>The six categories the prompt asks the language model to choose from.\<close>

definition recipe_categories :: "string list" where
  "recipe_categories =
     [''appetizer'', ''main course'', ''side dish'', ''dessert'', ''beverage'', ''snack'']"

section \<open>A concrete run\<close>

text \<open>
  The scenario of the specification: video \<open>abc123\<close>, two caption entries, the metadata
  of the video, and a language model that answers with a fixed recipe.
\<close>

definition example_settings :: Settings where
  "example_settings = default_settings\<lparr>video_id := ''abc123''\<rparr>"

definition example_entries :: "entry list" where
  "example_entries =
     [\<lparr>entry_text = ''First, chop the onions.''\<rparr>, \<lparr>entry_text = ''Then fry until golden.''\<rparr>]"

definition example_info :: "(string \<times> pyval) list" where
  "example_info =
     [(''id'', PStr ''abc123''), (''title'', PStr ''Fried Onion Recipe''),
      (''uploader'', PStr ''ChefX''), (''duration'', PInt 95),
      (''thumbnail'', PStr ''https://img/x.jpg'')]"

definition example_output :: "string \<Rightarrow> pyval" where
  "example_output category =
     PDict
       [(''@context'', PStr ''https://schema.org''),
        (''@type'', PStr ''Recipe''),
        (''name'', PStr ''Fried Onions''),
        (''cookTime'', PStr ''PT10M''),
        (''description'', PStr ''Onions fried until golden.''),
        (''keywords'', PStr ''onion, frying''),
        (''prepTime'', PStr ''PT5M''),
        (''recipeCategory'', PStr category),
        (''recipeCuisine'', PStr ''American''),
        (''recipeIngredient'', PList [PStr ''2 onions'', PStr ''oil'']),
        (''recipeInstructions'',
           PList
             [PDict [(''@type'', PStr ''HowToStep''), (''text'', PStr ''Chop the onions.'')],
              PDict [(''@type'', PStr ''HowToSection''), (''name'', PStr ''Cooking''),
                     (''itemListElement'',
                        PList [PDict [(''@type'', PStr ''HowToStep''),
                                      (''text'', PStr ''Fry until golden.'')]])]])]"

definition example_base_recipe :: "string \<Rightarrow> BaseRecipe" where
  "example_base_recipe category =
     \<lparr>recipe_context = ''https://schema.org'', recipe_type = ''Recipe'',
      name = ''Fried Onions'', cookTime = ''PT10M'',
      description = ''Onions fried until golden.'', recipe_keywords = ''onion, frying'',
      prepTime = ''PT5M'', recipeCategory = category, recipeCuisine = ''American'',
      recipeIngredient = [''2 onions'', ''oil''],
      recipeInstructions =
        [Step \<lparr>step_type = ''HowToStep'', step_text = ''Chop the onions.''\<rparr>,
         Section \<lparr>section_type = ''HowToSection'', section_name = ''Cooking'',
                  itemListElement =
                    [\<lparr>step_type = ''HowToStep'', step_text = ''Fry until golden.''\<rparr>]\<rparr>]\<rparr>"

definition example_video_info :: VideoInfo where
  "example_video_info =
     \<lparr>title = ''Fried Onion Recipe'', author = ''ChefX'', thumbnail_url = ''https://img/x.jpg''\<rparr>"

definition example_request :: "string \<Rightarrow> parse_request" where
  "example_request transcript =
     \<lparr>base_url = '''', api_key = '''', model = ''gpt-4.1-mini'', instructions = instruction,
      input = parse_input ''Fried Onion Recipe'' transcript\<rparr>"

definition example_world :: world where
  "example_world =
     \<lparr>transcript_fetch = (\<lambda>vid languages. Inr example_entries),
      extract_info = (\<lambda>url. Inr (Some example_info)),
      responses_parse = (\<lambda>req. Inr (Some (example_output ''side dish'')))\<rparr>"

text \<open>The same run with a caption track that holds no entry.\<close>

definition no_entries_world :: world where
  "no_entries_world = example_world\<lparr>transcript_fetch := (\<lambda>vid languages. Inr [])\<rparr>"

text \<open>The same run with a language model that names a category outside the six.\<close>

definition soup_world :: world where
  "soup_world = example_world\<lparr>responses_parse := (\<lambda>req. Inr (Some (example_output ''soup'')))\<rparr>"

text \<open>Runs in which a service fails.\<close>

definition no_captions_world :: world where
  "no_captions_world =
     example_world\<lparr>transcript_fetch := (\<lambda>vid languages. Inl (Exception ''no captions''))\<rparr>"

definition private_video_world :: world where
  "private_video_world =
     example_world\<lparr>extract_info := (\<lambda>url. Inl (Exception ''Private video''))\<rparr>"

definition null_info_world :: world where
  "null_info_world = example_world\<lparr>extract_info := (\<lambda>url. Inr None)\<rparr>"

definition example_recipe :: "string \<Rightarrow> Recipe" where
  "example_recipe category =
     BaseRecipe.extend (example_base_recipe category)
       (Recipe.fields ''https://img/x.jpg'' ''ChefX'')"

text \<open>A response of the video service that has no uploader and a null thumbnail.\<close>

definition sparse_info :: "(string \<times> pyval) list" where
  "sparse_info = [(''title'', PStr ''Fried Onion Recipe''), (''thumbnail'', PNone)]"

definition sparse_info_world :: world where
  "sparse_info_world = example_world\<lparr>extract_info := (\<lambda>url. Inr (Some sparse_info))\<rparr>"

section \<open>Joining, splitting and trimming\<close>

lemma foldl_sep_prefix:
  "foldl (\<lambda>acc u. acc @ sep @ u) (a @ t) rest = a @ foldl (\<lambda>acc u. acc @ sep @ u) t rest"
  by (induction rest arbitrary: t) simp_all

lemma str_join_Cons_foldl:
  "str_join sep (t # rest) = foldl (\<lambda>acc u. acc @ sep @ u) t rest"
proof (induction rest arbitrary: t)
  case Nil
  show ?case by simp
next
  case (Cons x xs)
  have "foldl (\<lambda>acc u. acc @ sep @ u) t (x # xs) = foldl (\<lambda>acc u. acc @ sep @ u) ((t @ sep) @ x) xs"
    by simp
  also have "\<dots> = (t @ sep) @ foldl (\<lambda>acc u. acc @ sep @ u) x xs"
    by (rule foldl_sep_prefix)
  also have "\<dots> = t @ sep @ str_join sep (x # xs)"
    by (simp add: Cons.IH)
  finally show ?case by simp
qed

lemma str_join_flattened: "str_join '' '' ts = flattened_spec ts"
  by (cases ts) (simp_all add: flattened_spec_def str_join_Cons_foldl)

lemma length_str_join:
  "length (str_join sep ts) = sum_list (map length ts) + (length ts - 1) * length sep"
  by (induction sep ts rule: str_join.induct) simp_all

text \<open>
  The scan of \<^verbatim>\<open>split\<close> yields the pieces between the commas: joined by commas
  again they give the text back, and no piece holds a comma.
\<close>

lemma comma_pieces_not_Nil: "comma_pieces s \<noteq> []"
  by (induction s) (auto split: list.splits)

lemma split_from_comma_pieces:
  "split_from CHR '','' cur s = (cur @ hd (comma_pieces s)) # tl (comma_pieces s)"
proof (induction s arbitrary: cur)
  case Nil
  show ?case by simp
next
  case (Cons c cs)
  obtain p ps where ps: "comma_pieces cs = p # ps"
    using comma_pieces_not_Nil [of cs] by (cases "comma_pieces cs") auto
  show ?case
    by (simp add: Cons.IH ps)
qed

lemma str_split_comma_pieces: "str_split s CHR '','' = comma_pieces s"
  using comma_pieces_not_Nil [of s]
  by (simp add: str_split_def split_from_comma_pieces)

lemma str_join_comma_pieces: "str_join '','' (comma_pieces s) = s"
proof (induction s)
  case Nil
  show ?case by simp
next
  case (Cons c cs)
  obtain p ps where ps: "comma_pieces cs = p # ps"
    using comma_pieces_not_Nil [of cs] by (cases "comma_pieces cs") auto
  from Cons.IH ps show ?case
    by (cases ps) auto
qed

lemma comma_pieces_no_comma: "p \<in> set (comma_pieces s) \<Longrightarrow> CHR '','' \<notin> set p"
proof (induction s arbitrary: p)
  case Nil
  then show ?case by simp
next
  case (Cons c cs)
  obtain q qs where qs: "comma_pieces cs = q # qs"
    using comma_pieces_not_Nil [of cs] by (cases "comma_pieces cs") auto
  from Cons qs show ?case
    by (auto split: if_splits)
qed

text \<open>Stripping the left end and then the right end trims the text.\<close>

lemma rstrip_Cons:
  "str_rstrip (x # xs) =
     (if \<forall>y\<in>set xs. isspace y then (if isspace x then [] else [x]) else x # str_rstrip xs)"
  by (simp add: str_rstrip_def dropWhile_append)

lemma rstrip_all_space: "\<forall>y\<in>set xs. isspace y \<Longrightarrow> str_rstrip xs = []"
  by (simp add: str_rstrip_def)

lemma set_dropWhile_all: "\<forall>y\<in>set xs. P y \<Longrightarrow> \<forall>y\<in>set (dropWhile P xs). P y"
  by (induction xs) auto

lemma rstrip_lstrip_commute: "str_rstrip (dropWhile isspace s) = dropWhile isspace (str_rstrip s)"
proof (induction s)
  case Nil
  show ?case by (simp add: str_rstrip_def)
next
  case (Cons x xs)
  show ?case
  proof (cases "isspace x")
    case True
    show ?thesis
    proof (cases "\<forall>y\<in>set xs. isspace y")
      case all: True
      then have "str_rstrip (dropWhile isspace xs) = []"
        by (intro rstrip_all_space set_dropWhile_all)
      with True all show ?thesis by (simp add: rstrip_Cons)
    next
      case False
      then have "str_rstrip (x # xs) = x # str_rstrip xs"
        by (auto simp add: rstrip_Cons)
      with True Cons.IH show ?thesis by simp
    qed
  next
    case False
    then show ?thesis by (simp add: rstrip_Cons)
  qed
qed

lemma str_strip_trimmed: "str_strip s = trimmed s"
  using rstrip_lstrip_commute [of s]
  by (simp add: str_strip_def str_lstrip_def trimmed_def str_rstrip_def)

lemma preferred_languages_list_spec:
  "preferred_languages_list settings = map trimmed (comma_pieces (preferred_languages settings))"
  by (simp add: preferred_languages_list_def str_split_comma_pieces str_strip_trimmed)

text \<open>Only the transcript fetcher calls the caption service, once.\<close>

lemma fetch_languages_append:
  "fetch_languages (xs @ ys) = fetch_languages xs @ fetch_languages ys"
  by (induction xs rule: fetch_languages.induct) simp_all

lemma fetch_languages_get_video_info: "fetch_languages (fst (get_video_info w vid)) = []"
  by (simp add: get_video_info_def Let_def split: sum.splits option.splits)

lemma fetch_languages_extract_recipe:
  "fetch_languages (fst (extract_recipe settings w t tr)) = []"
  by (simp add: extract_recipe_def Let_def split: sum.splits option.splits)

lemma fetch_languages_get_transcript:
  "fetch_languages (fst (get_transcript settings w vid)) = [preferred_languages_list settings @ [''en'']]"
  by (simp add: get_transcript_def Let_def split: sum.splits)

lemma fetch_languages_main:
  "fetch_languages (main settings w) = [preferred_languages_list settings @ [''en'']]"
proof -
  obtain ev1 r1 where g1: "get_transcript settings w (video_id settings) = (ev1, r1)"
    by (cases "get_transcript settings w (video_id settings)")
  obtain ev2 r2 where g2: "get_video_info w (video_id settings) = (ev2, r2)"
    by (cases "get_video_info w (video_id settings)")
  have f1: "fetch_languages ev1 = [preferred_languages_list settings @ [''en'']]"
    using fetch_languages_get_transcript [of settings w "video_id settings"] g1 by simp
  have f2: "fetch_languages ev2 = []"
    using fetch_languages_get_video_info [of w "video_id settings"] g2 by simp
  have f3: "fetch_languages ev3 = []" if "extract_recipe settings w t tr = (ev3, r3)" for t tr ev3 r3
    using fetch_languages_extract_recipe [of settings w t tr] that by simp
  show ?thesis
    using f1 f2 f3
    by (auto simp add: main_def Let_def g1 g2 fetch_languages_append
        split: option.splits prod.splits)
qed

section \<open>The pipeline on its services\<close>

lemmas example_defs =
  example_settings_def default_settings_def example_world_def example_entries_def
  example_info_def

lemma languages_default: "preferred_languages_list example_settings = [''ko'']"
  by (simp add: example_defs preferred_languages_list_def str_split_def str_strip_def
      str_lstrip_def str_rstrip_def isspace_def)

text \<open>
  Validation undoes \<^verbatim>\<open>model_dump()\<close> on a well-typed value. A dumped step is no
  section and a dumped section is no step, so the union has one candidate only.
\<close>

lemma those_map_Some:
  "\<forall>x\<in>set xs. f (g x) = Some x \<Longrightarrow> those (map (f \<circ> g) xs) = Some xs"
  by (induction xs) simp_all

lemma validate_str_list_dump: "those (map (validate_str \<circ> PStr) xs) = Some xs"
  by (simp add: those_map_Some)

lemma step_roundtrip:
  "HowToStep_wf s \<Longrightarrow> model_validate HowToStep_validate (HowToStep_model_dump s) = Some s"
  by (simp add: HowToStep_wf_def HowToStep_validate_def HowToStep_model_dump_def
      field_default_def field_required_def)

lemma step_is_no_section:
  "model_validate HowToSection_validate (HowToStep_model_dump s) = None"
  by (simp add: HowToSection_validate_def HowToStep_model_dump_def
      field_default_def field_required_def)

lemma section_is_no_step:
  "model_validate HowToStep_validate (HowToSection_model_dump s) = None"
  by (simp add: HowToStep_validate_def HowToSection_model_dump_def
      field_default_def field_required_def)

lemma steps_roundtrip:
  "list_all HowToStep_wf xs \<Longrightarrow>
   those (map (model_validate HowToStep_validate \<circ> HowToStep_model_dump) xs) = Some xs"
  by (simp add: those_map_Some step_roundtrip list_all_iff)

lemma section_roundtrip:
  "HowToSection_wf s \<Longrightarrow>
   model_validate HowToSection_validate (HowToSection_model_dump s) = Some s"
  by (simp add: HowToSection_wf_def HowToSection_validate_def HowToSection_model_dump_def
      field_default_def field_required_def steps_roundtrip)

lemma instruction_roundtrip:
  "instruction_wf i \<Longrightarrow> instruction_validate (instruction_model_dump i) = Some i"
  by (cases i)
     (simp_all add: instruction_validate_def step_roundtrip step_is_no_section section_roundtrip)

lemma instructions_roundtrip:
  "list_all instruction_wf xs \<Longrightarrow>
   those (map (instruction_validate \<circ> instruction_model_dump) xs) = Some xs"
  by (simp add: those_map_Some instruction_roundtrip list_all_iff)

lemma BaseRecipe_roundtrip:
  fixes b :: BaseRecipe
  assumes "BaseRecipe_wf b"
  shows "BaseRecipe_validate
           (BaseRecipe_model_dump b @ [(''image'', PStr im), (''author'', PStr au)]) = Some b"
  using assms
  by (simp add: BaseRecipe_wf_def BaseRecipe_validate_def BaseRecipe_model_dump_def
      field_default_def field_required_def validate_str_list_dump instructions_roundtrip)

lemma from_base_recipe_wf:
  assumes "BaseRecipe_wf b"
  shows "from_base_recipe b v =
           Some (BaseRecipe.extend b (Recipe.fields (thumbnail_url v) (author v)))"
  using BaseRecipe_roundtrip [OF assms]
  by (simp add: from_base_recipe_def Recipe_validate_def field_required_def
      BaseRecipe_model_dump_def)

text \<open>The tag fields of a validated recipe hold their literals, whatever the input.\<close>

lemma BaseRecipe_validate_literals:
  assumes "BaseRecipe_validate d = Some b"
  shows "recipe_context b = ''https://schema.org'' \<and> recipe_type b = ''Recipe''"
proof -
  from assms obtain cx ty where
    cx: "field_default d ''@context'' ''https://schema.org''
           (validate_literal ''https://schema.org'') = Some cx"
    and ty: "field_default d ''@type'' ''Recipe'' (validate_literal ''Recipe'') = Some ty"
    and b: "recipe_context b = cx" "recipe_type b = ty"
    by (auto simp add: BaseRecipe_validate_def bind_eq_Some_conv)
  from cx have "cx = ''https://schema.org''"
    by (auto simp add: field_default_def validate_literal_def split: option.splits if_splits)
  moreover from ty have "ty = ''Recipe''"
    by (auto simp add: field_default_def validate_literal_def split: option.splits if_splits)
  ultimately show ?thesis using b by simp
qed

lemma Recipe_validate_literals:
  assumes "Recipe_validate d = Some r"
  shows "recipe_context r = ''https://schema.org'' \<and> recipe_type r = ''Recipe''"
proof -
  from assms obtain b im au where
    b: "BaseRecipe_validate d = Some b" and r: "r = BaseRecipe.extend b (Recipe.fields im au)"
    by (auto simp add: Recipe_validate_def bind_eq_Some_conv)
  from BaseRecipe_validate_literals [OF b] r show ?thesis
    by (simp add: BaseRecipe.extend_def)
qed

lemma json_str_context: \<open>json_str ''@context'' = ''"@context"''\<close>
  by (simp add: json_str_def json_escape_def)

lemma json_str_type: \<open>json_str ''@type'' = ''"@type"''\<close>
  by (simp add: json_str_def json_escape_def)

lemma json_str_schema_org: \<open>json_str ''https://schema.org'' = ''"https://schema.org"''\<close>
  by (simp add: json_str_def json_escape_def)

lemma json_str_Recipe: \<open>json_str ''Recipe'' = ''"Recipe"''\<close>
  by (simp add: json_str_def json_escape_def)

lemma model_dump_json_prefix:
  assumes \<open>recipe_context r = ''https://schema.org''\<close> and \<open>recipe_type r = ''Recipe''\<close>
  shows \<open>\<exists>rest. model_dump_json r = ''{"@context":"https://schema.org","@type":"Recipe",'' @ rest\<close>
  using assms
  by (simp add: model_dump_json_def json_object_def json_str_context json_str_type
      json_str_schema_org json_str_Recipe)

text \<open>
  The three steps print through \<open>PrintExn\<close> only; the plain lines of a run are those
  of \<^verbatim>\<open>main\<close>.
\<close>

lemma Print_get_transcript: "Print t \<notin> set (fst (get_transcript settings w vid))"
  by (simp add: get_transcript_def Let_def split: sum.splits)

lemma Print_get_video_info: "Print t \<notin> set (fst (get_video_info w vid))"
  by (simp add: get_video_info_def Let_def split: sum.splits option.splits)

lemma Print_extract_recipe: "Print t \<notin> set (fst (extract_recipe settings w vt tr))"
  by (simp add: extract_recipe_def Let_def split: sum.splits option.splits)

lemma main_prints:
  assumes "Print t \<in> set (main settings w)"
  shows "t \<in> {''Failed to retrieve transcript.'', ''Failed to retrieve video information.'',
               ''Failed to extract recipe''} \<or>
         (\<exists>b v r. from_base_recipe b v = Some r \<and> t = model_dump_json r)"
proof -
  obtain ev1 r1 where g1: "get_transcript settings w (video_id settings) = (ev1, r1)"
    by (cases "get_transcript settings w (video_id settings)")
  obtain ev2 r2 where g2: "get_video_info w (video_id settings) = (ev2, r2)"
    by (cases "get_video_info w (video_id settings)")
  have p1: "Print t \<notin> set ev1"
    using Print_get_transcript [of t settings w "video_id settings"] g1 by simp
  have p2: "Print t \<notin> set ev2"
    using Print_get_video_info [of t w "video_id settings"] g2 by simp
  show ?thesis
  proof (cases r1)
    case None
    with assms p1 g1 show ?thesis by (simp add: main_def Let_def)
  next
    case tt: (Some transcript_text)
    show ?thesis
    proof (cases r2)
      case None
      with assms p1 p2 g1 g2 tt show ?thesis by (simp add: main_def Let_def)
    next
      case vi: (Some video_info)
      obtain ev3 r3 where
        g3: "extract_recipe settings w (title video_info) transcript_text = (ev3, r3)"
        by (cases "extract_recipe settings w (title video_info) transcript_text")
      have p3: "Print t \<notin> set ev3"
        using Print_extract_recipe [of t settings w "title video_info" transcript_text] g3
        by simp
      show ?thesis
      proof (cases r3)
        case None
        with assms p1 p2 p3 g1 g2 g3 tt vi show ?thesis by (simp add: main_def Let_def)
      next
        case br: (Some base_recipe)
        show ?thesis
        proof (cases "from_base_recipe base_recipe video_info")
          case None
          with assms p1 p2 p3 g1 g2 g3 tt vi br show ?thesis by (simp add: main_def Let_def)
        next
          case (Some recipe)
          with assms p1 p2 p3 g1 g2 g3 tt vi br have "t = model_dump_json recipe"
            by (simp add: main_def Let_def)
          with Some show ?thesis by blast
        qed
      qed
    qed
  qed
qed

text \<open>The concrete runs, evaluated.\<close>

lemmas validate_defs =
  BaseRecipe_validate_def HowToStep_validate_def HowToSection_validate_def
  instruction_validate_def field_default_def field_required_def validate_literal_def

lemma example_wf: "BaseRecipe_wf (example_base_recipe category)"
  by (simp add: BaseRecipe_wf_def example_base_recipe_def HowToStep_wf_def HowToSection_wf_def)

lemma example_validate:
  "model_validate BaseRecipe_validate (example_output category) = Some (example_base_recipe category)"
  by (simp add: example_output_def example_base_recipe_def validate_defs)

lemma example_from_base_recipe:
  "from_base_recipe (example_base_recipe category) example_video_info = Some (example_recipe category)"
  by (simp add: from_base_recipe_wf [OF example_wf] example_recipe_def example_video_info_def)

lemma example_get_transcript:
  "get_transcript example_settings example_world ''abc123'' =
     ([Fetch ''abc123'' [''ko'', ''en'']], Some ''First, chop the onions. Then fry until golden.'')"
  by (simp add: get_transcript_def languages_default example_world_def example_entries_def)

lemma example_get_video_info:
  "get_video_info example_world ''abc123'' =
     ([ExtractInfo ''https://www.youtube.com/watch?v=abc123''], Some example_video_info)"
  by (simp add: get_video_info_def watch_url_def example_world_def example_info_def
      example_video_info_def VideoInfo_validate_def field_required_def py_or_def dict_get_def)

lemma example_extract_recipe:
  "extract_recipe example_settings example_world ''Fried Onion Recipe'' transcript =
     ([ResponsesParse (example_request transcript)], Some (example_base_recipe ''side dish''))"
  by (simp add: extract_recipe_def example_world_def example_validate example_request_def
      example_settings_def default_settings_def)

lemma example_main:
  "main example_settings example_world =
     [Fetch ''abc123'' [''ko'', ''en''],
      ExtractInfo ''https://www.youtube.com/watch?v=abc123'',
      ResponsesParse (example_request ''First, chop the onions. Then fry until golden.''),
      Print (model_dump_json (example_recipe ''side dish''))]"
proof -
  have v: "video_id example_settings = ''abc123''"
    by (simp add: example_settings_def default_settings_def)
  have t: "title example_video_info = ''Fried Onion Recipe''"
    by (simp add: example_video_info_def)
  show ?thesis
    by (simp add: main_def Let_def v t example_get_transcript example_get_video_info
        example_extract_recipe example_from_base_recipe)
qed

lemma no_entries_main:
  "main example_settings no_entries_world =
     [Fetch ''abc123'' [''ko'', ''en''],
      ExtractInfo ''https://www.youtube.com/watch?v=abc123'',
      ResponsesParse (example_request ''''),
      Print (model_dump_json (example_recipe ''side dish''))]"
proof -
  have v: "video_id example_settings = ''abc123''"
    by (simp add: example_settings_def default_settings_def)
  have t: "title example_video_info = ''Fried Onion Recipe''"
    by (simp add: example_video_info_def)
  have g1: "get_transcript example_settings no_entries_world ''abc123'' =
              ([Fetch ''abc123'' [''ko'', ''en'']], Some '''')"
    by (simp add: get_transcript_def languages_default no_entries_world_def)
  have g2: "get_video_info no_entries_world ''abc123'' = get_video_info example_world ''abc123''"
    by (simp add: get_video_info_def no_entries_world_def)
  have g3: "extract_recipe example_settings no_entries_world vt tr =
              extract_recipe example_settings example_world vt tr" for vt tr
    by (simp add: extract_recipe_def no_entries_world_def)
  show ?thesis
    by (simp add: main_def Let_def v t g1 g2 g3 example_get_video_info
        example_extract_recipe example_from_base_recipe)
qed

lemma soup_extract_recipe:
  "extract_recipe example_settings soup_world ''Fried Onion Recipe'' transcript =
     ([ResponsesParse (example_request transcript)], Some (example_base_recipe ''soup''))"
  by (simp add: extract_recipe_def soup_world_def example_validate example_request_def
      example_settings_def default_settings_def)

lemma BaseRecipe_validate_category:
  assumes "BaseRecipe_validate d = Some b"
  shows "map_of d ''recipeCategory'' = Some (PStr (recipeCategory b))"
proof -
  from assms obtain ca where
    ca: "field_required d ''recipeCategory'' validate_str = Some ca"
    and b: "recipeCategory b = ca"
    by (auto simp add: BaseRecipe_validate_def bind_eq_Some_conv)
  from ca obtain v where v: "map_of d ''recipeCategory'' = Some v" "validate_str v = Some ca"
    by (auto simp add: field_required_def split: option.splits)
  from v(2) have "v = PStr ca"
    by (cases v) simp_all
  with v(1) b show ?thesis by simp
qed

lemma BaseRecipe_validate_any_category:
  assumes "BaseRecipe_validate d = Some b"
  shows "BaseRecipe_validate ((''recipeCategory'', PStr c) # d) = Some (b\<lparr>recipeCategory := c\<rparr>)"
  using assms
  by (auto simp add: BaseRecipe_validate_def field_required_def field_default_def
      bind_eq_Some_conv)

text \<open>The fields of the video info.\<close>

lemma py_or_text:
  assumes "validate_str (py_or x (PStr '''')) = Some s"
  shows "s = (case x of PStr t \<Rightarrow> t | _ \<Rightarrow> [])"
  using assms by (cases x) (auto simp add: py_or_def split: if_splits)

lemma py_or_typed:
  assumes "x = PNone \<or> (\<exists>t. x = PStr t)"
  shows "\<exists>s. validate_str (py_or x (PStr '''')) = Some s"
  using assms by (auto simp add: py_or_def)

lemma field_text_dict_get:
  "field_text info k = (case dict_get info k of PStr t \<Rightarrow> t | _ \<Rightarrow> [])"
  by (simp add: field_text_def dict_get_def split: option.splits pyval.splits)

lemma info_typed_dict_get:
  assumes "info_typed info" and "k \<in> {''title'', ''uploader'', ''thumbnail''}"
  shows "dict_get info k = PNone \<or> (\<exists>t. dict_get info k = PStr t)"
  using assms
  by (auto simp add: info_typed_def dict_get_def split: option.splits pyval.splits)

lemma get_video_info_Some:
  assumes "extract_info w (watch_url vid) = Inr (Some info)"
    and "get_video_info w vid = (ev, Some v)"
  shows "title v = field_text info ''title'' \<and> author v = field_text info ''uploader'' \<and>
         thumbnail_url v = field_text info ''thumbnail''"
proof -
  from assms have "VideoInfo_validate
      [(''title'', py_or (dict_get info ''title'') (PStr '''')),
       (''author'', py_or (dict_get info ''uploader'') (PStr '''')),
       (''thumbnail_url'', py_or (dict_get info ''thumbnail'') (PStr ''''))] = Some v"
    by (simp add: get_video_info_def Let_def split: option.splits)
  then obtain t a u where
    t: "validate_str (py_or (dict_get info ''title'') (PStr '''')) = Some t"
    and a: "validate_str (py_or (dict_get info ''uploader'') (PStr '''')) = Some a"
    and u: "validate_str (py_or (dict_get info ''thumbnail'') (PStr '''')) = Some u"
    and v: "v = \<lparr>title = t, author = a, thumbnail_url = u\<rparr>"
    by (auto simp add: VideoInfo_validate_def field_required_def bind_eq_Some_conv)
  from py_or_text [OF t] py_or_text [OF a] py_or_text [OF u] v show ?thesis
    by (simp add: field_text_dict_get)
qed

lemma get_video_info_typed:
  assumes "extract_info w (watch_url vid) = Inr (Some info)" and "info_typed info"
  shows "\<exists>v. get_video_info w vid = ([ExtractInfo (watch_url vid)], Some v)"
proof -
  obtain t where t: "validate_str (py_or (dict_get info ''title'') (PStr '''')) = Some t"
    using py_or_typed [OF info_typed_dict_get [OF assms(2), of "''title''"]] by auto
  obtain a where a: "validate_str (py_or (dict_get info ''uploader'') (PStr '''')) = Some a"
    using py_or_typed [OF info_typed_dict_get [OF assms(2), of "''uploader''"]] by auto
  obtain u where u: "validate_str (py_or (dict_get info ''thumbnail'') (PStr '''')) = Some u"
    using py_or_typed [OF info_typed_dict_get [OF assms(2), of "''thumbnail''"]] by auto
  from t a u assms(1) show ?thesis
    by (simp add: get_video_info_def Let_def VideoInfo_validate_def field_required_def)
qed

section \<open>What validation guarantees\<close>

text \<open>
  A value that passed validation is well typed, so the assembler cannot fail on the base
  recipe the extractor returns, and no exception leaves \<^verbatim>\<open>main\<close>.
\<close>

lemma those_map_all:
  assumes "those (map f xs) = Some ys" and "\<And>x y. f x = Some y \<Longrightarrow> P y"
  shows "list_all P ys"
  using assms(1)
proof (induction xs arbitrary: ys)
  case Nil
  then show ?case by simp
next
  case (Cons x xs)
  then show ?case
    by (auto simp add: assms(2) split: option.splits)
qed

lemma literal_default:
  assumes "field_default d k lit (validate_literal lit) = Some x"
  shows "x = lit"
  using assms
  by (auto simp add: field_default_def validate_literal_def split: option.splits if_splits)

lemma HowToStep_validate_wf:
  assumes "model_validate HowToStep_validate v = Some s"
  shows "HowToStep_wf s"
proof -
  from assms obtain d where d: "HowToStep_validate d = Some s"
    by (cases v) simp_all
  then obtain ty where
    "field_default d ''@type'' ''HowToStep'' (validate_literal ''HowToStep'') = Some ty"
    "step_type s = ty"
    by (auto simp add: HowToStep_validate_def bind_eq_Some_conv)
  with literal_default show ?thesis
    by (auto simp add: HowToStep_wf_def)
qed

lemma HowToSection_validate_wf:
  assumes "model_validate HowToSection_validate v = Some s"
  shows "HowToSection_wf s"
proof -
  from assms obtain d where d: "HowToSection_validate d = Some s"
    by (cases v) simp_all
  then obtain ty items where
    ty: "field_default d ''@type'' ''HowToSection'' (validate_literal ''HowToSection'') = Some ty"
    and items: "field_required d ''itemListElement''
                  (validate_list (model_validate HowToStep_validate)) = Some items"
    and s: "section_type s = ty" "itemListElement s = items"
    by (auto simp add: HowToSection_validate_def bind_eq_Some_conv)
  from items obtain l where "validate_list (model_validate HowToStep_validate) l = Some items"
    by (auto simp add: field_required_def split: option.splits)
  then obtain xs where "those (map (model_validate HowToStep_validate) xs) = Some items"
    by (cases l) simp_all
  then have "list_all HowToStep_wf items"
    by (rule those_map_all) (rule HowToStep_validate_wf)
  with literal_default [OF ty] s show ?thesis
    by (simp add: HowToSection_wf_def)
qed

lemma instruction_validate_wf:
  assumes "instruction_validate v = Some i"
  shows "instruction_wf i"
  using assms HowToStep_validate_wf HowToSection_validate_wf
  by (auto simp add: instruction_validate_def split: option.splits)

lemma BaseRecipe_validate_wf:
  assumes "BaseRecipe_validate d = Some b"
  shows "BaseRecipe_wf b"
proof -
  from assms obtain ins where
    ins: "field_required d ''recipeInstructions'' (validate_list instruction_validate) = Some ins"
    and b: "recipeInstructions b = ins"
    by (auto simp add: BaseRecipe_validate_def bind_eq_Some_conv)
  from ins obtain l where "validate_list instruction_validate l = Some ins"
    by (auto simp add: field_required_def split: option.splits)
  then obtain xs where "those (map instruction_validate xs) = Some ins"
    by (cases l) simp_all
  then have "list_all instruction_wf ins"
    by (rule those_map_all) (rule instruction_validate_wf)
  with BaseRecipe_validate_literals [OF assms] b show ?thesis
    by (simp add: BaseRecipe_wf_def)
qed

lemma extract_recipe_wf:
  assumes "extract_recipe settings w vt tr = (ev, Some b)"
  shows "BaseRecipe_wf b"
proof -
  from assms obtain out where "model_validate BaseRecipe_validate out = Some b"
    by (auto simp add: extract_recipe_def Let_def split: sum.splits option.splits)
  then obtain d where "BaseRecipe_validate d = Some b"
    by (cases out) simp_all
  then show ?thesis by (rule BaseRecipe_validate_wf)
qed

lemma Raise_get_transcript: "Raise e \<notin> set (fst (get_transcript settings w vid))"
  by (simp add: get_transcript_def Let_def split: sum.splits)

lemma Raise_get_video_info: "Raise e \<notin> set (fst (get_video_info w vid))"
  by (simp add: get_video_info_def Let_def split: sum.splits option.splits)

lemma Raise_extract_recipe: "Raise e \<notin> set (fst (extract_recipe settings w vt tr))"
  by (simp add: extract_recipe_def Let_def split: sum.splits option.splits)

lemma main_never_raises: "Raise e \<notin> set (main settings w)"
proof -
  obtain ev1 r1 where g1: "get_transcript settings w (video_id settings) = (ev1, r1)"
    by (cases "get_transcript settings w (video_id settings)")
  obtain ev2 r2 where g2: "get_video_info w (video_id settings) = (ev2, r2)"
    by (cases "get_video_info w (video_id settings)")
  have p1: "Raise e \<notin> set ev1"
    using Raise_get_transcript [of e settings w "video_id settings"] g1 by simp
  have p2: "Raise e \<notin> set ev2"
    using Raise_get_video_info [of e w "video_id settings"] g2 by simp
  show ?thesis
  proof (cases r1)
    case None
    with p1 g1 show ?thesis by (simp add: main_def Let_def)
  next
    case tt: (Some transcript_text)
    show ?thesis
    proof (cases r2)
      case None
      with p1 p2 g1 g2 tt show ?thesis by (simp add: main_def Let_def)
    next
      case vi: (Some video_info)
      obtain ev3 r3 where
        g3: "extract_recipe settings w (title video_info) transcript_text = (ev3, r3)"
        by (cases "extract_recipe settings w (title video_info) transcript_text")
      have p3: "Raise e \<notin> set ev3"
        using Raise_extract_recipe [of e settings w "title video_info" transcript_text] g3
        by simp
      show ?thesis
      proof (cases r3)
        case None
        with p1 p2 p3 g1 g2 g3 tt vi show ?thesis by (simp add: main_def Let_def)
      next
        case br: (Some base_recipe)
        from g3 br have "BaseRecipe_wf base_recipe"
          by (auto intro: extract_recipe_wf)
        then have "from_base_recipe base_recipe video_info =
            Some (BaseRecipe.extend base_recipe
                    (Recipe.fields (thumbnail_url video_info) (author video_info)))"
          by (rule from_base_recipe_wf)
        with p1 p2 p3 g1 g2 g3 tt vi br show ?thesis by (simp add: main_def Let_def)
      qed
    qed
  qed
qed

section \<open>The claims\<close>

text \<open>
  Claim C1. For a transcript response of N caption entries with texts \<open>t1..tN\<close>, in
  their order, the transcript fetcher returns the single string
  \<open>t1 + " " + t2 + ... + " " + tN\<close>: the texts joined by one space each, nothing added,
  nothing dropped.
\<close>

theorem get_transcript_flattens:
  assumes "transcript_fetch w vid (preferred_languages_list settings @ [''en'']) = Inr es"
  shows "snd (get_transcript settings w vid) = Some (flattened_spec (map entry_text es))"
  using assms by (simp add: get_transcript_def str_join_flattened)

theorem get_transcript_flattens_witness:
  "transcript_fetch example_world ''abc123'' (preferred_languages_list example_settings @ [''en''])
     = Inr example_entries \<and>
   snd (get_transcript example_settings example_world ''abc123'')
     = Some ''First, chop the onions. Then fry until golden.''"
proof -
  have h: "transcript_fetch example_world ''abc123''
             (preferred_languages_list example_settings @ [''en'']) = Inr example_entries"
    by (simp add: example_world_def)
  have "flattened_spec (map entry_text example_entries)
          = ''First, chop the onions. Then fry until golden.''"
    by (simp add: flattened_spec_def example_entries_def)
  with h get_transcript_flattens [OF h] show ?thesis by simp
qed

text \<open>
  Claim C2. For every base recipe \<open>b\<close> and every video info \<open>v\<close>, the assembler
  \<^verbatim>\<open>Recipe.from_base_recipe\<close> does not fail and yields the recipe whose eleven
  fields from \<^verbatim>\<open>BaseRecipe\<close> are those of \<open>b\<close>, whose image is the thumbnail of \<open>v\<close>
  and whose author is the author of \<open>v\<close>. Here \<open>b\<close> is an instance of \<^verbatim>\<open>BaseRecipe\<close>
  itself, as the extractor returns it, and well typed: its tag fields hold their literals.
\<close>

theorem from_base_recipe_copies:
  assumes "BaseRecipe_wf b"
  shows "from_base_recipe b v =
           Some \<lparr>recipe_context = recipe_context b, recipe_type = recipe_type b,
                 name = name b, cookTime = cookTime b, description = description b,
                 recipe_keywords = recipe_keywords b, prepTime = prepTime b,
                 recipeCategory = recipeCategory b, recipeCuisine = recipeCuisine b,
                 recipeIngredient = recipeIngredient b,
                 recipeInstructions = recipeInstructions b,
                 recipe_image = thumbnail_url v, recipe_author = author v\<rparr>"
  by (simp add: from_base_recipe_wf [OF assms] BaseRecipe.extend_def Recipe.fields_def)

theorem from_base_recipe_copies_witness:
  "BaseRecipe_wf (example_base_recipe ''side dish'') \<and>
   from_base_recipe (example_base_recipe ''side dish'') example_video_info =
     Some (example_recipe ''side dish'') \<and>
   name (example_recipe ''side dish'') = ''Fried Onions'' \<and>
   recipe_image (example_recipe ''side dish'') = ''https://img/x.jpg'' \<and>
   recipe_author (example_recipe ''side dish'') = ''ChefX''"
proof -
  have wf: "BaseRecipe_wf (example_base_recipe ''side dish'')"
    by (rule example_wf)
  from wf from_base_recipe_copies [OF wf, of example_video_info] show ?thesis
    by (simp add: example_recipe_def example_base_recipe_def example_video_info_def
        BaseRecipe.extend_def Recipe.fields_def)
qed

text \<open>
  Claim C3. Whatever the settings and the services are, a line a run prints is one of the
  three failure messages or the JSON text of a recipe whose \<^verbatim>\<open>@context\<close> is
  \<^verbatim>\<open>https://schema.org\<close> and whose \<^verbatim>\<open>@type\<close> is \<^verbatim>\<open>Recipe\<close>; the text then starts
  with these two key-value pairs. (The JSON is compact: a pair is written without a blank
  after the colon.)
\<close>

theorem printed_json_literals:
  assumes \<open>Print t \<in> set (main settings w)\<close>
  shows \<open>t \<in> {''Failed to retrieve transcript.'', ''Failed to retrieve video information.'',
               ''Failed to extract recipe''} \<or>
         (\<exists>r rest. t = model_dump_json r \<and>
            recipe_context r = ''https://schema.org'' \<and> recipe_type r = ''Recipe'' \<and>
            t = ''{"@context":"https://schema.org","@type":"Recipe",'' @ rest)\<close>
proof -
  from main_prints [OF assms] consider
    (failure) "t \<in> {''Failed to retrieve transcript.'', ''Failed to retrieve video information.'',
               ''Failed to extract recipe''}"
    | (json) b v r where "from_base_recipe b v = Some r" "t = model_dump_json r"
    by blast
  then show ?thesis
  proof cases
    case failure
    then show ?thesis by blast
  next
    case json
    from json(1) have lits: "recipe_context r = ''https://schema.org'' \<and> recipe_type r = ''Recipe''"
      unfolding from_base_recipe_def by (rule Recipe_validate_literals)
    with model_dump_json_prefix [of r] json(2) show ?thesis by auto
  qed
qed

theorem printed_json_literals_witness:
  \<open>Print (model_dump_json (example_recipe ''side dish'')) \<in> set (main example_settings example_world) \<and>
   (\<exists>rest. model_dump_json (example_recipe ''side dish'') =
      ''{"@context":"https://schema.org","@type":"Recipe",'' @ rest)\<close>
proof -
  have mem: "Print (model_dump_json (example_recipe ''side dish''))
               \<in> set (main example_settings example_world)"
    by (simp add: example_main)
  have json: \<open>model_dump_json (example_recipe ''side dish'') =
      ''{"@context":"https://schema.org","@type":"Recipe","name":"Fried Onions","cookTime":"PT10M","description":"Onions fried until golden.","keywords":"onion, frying","prepTime":"PT5M","recipeCategory":"side dish","recipeCuisine":"American","recipeIngredient":["2 onions","oil"],"recipeInstructions":[{"@type":"HowToStep","text":"Chop the onions."},{"@type":"HowToSection","name":"Cooking","itemListElement":[{"@type":"HowToStep","text":"Fry until golden."}]}],"image":"https://img/x.jpg","author":"ChefX"}''\<close>
    by (simp add: model_dump_json_def example_recipe_def example_base_recipe_def
        BaseRecipe.extend_def Recipe.fields_def json_object_def json_array_def json_str_def
        json_escape_def HowToStep_json_def HowToSection_json_def)
  from json have nofail: "model_dump_json (example_recipe ''side dish'')
        \<notin> {''Failed to retrieve transcript.'', ''Failed to retrieve video information.'',
               ''Failed to extract recipe''}"
    by simp
  from mem nofail printed_json_literals [OF mem] show ?thesis
    by blast
qed

text \<open>
  Claim C4, as the code has it. A base recipe the extractor accepts has as its
  \<^verbatim>\<open>recipeCategory\<close> the text the language model gave under that key, and any
  text is accepted there: with another text under that key the same output is accepted
  too. The six categories are named in the prompt only; the run shown after the theorem
  is one in which a seventh is accepted.
\<close>

theorem category_is_any_text:
  assumes "snd (extract_recipe settings w video_title transcript) = Some b"
  shows "\<exists>d. responses_parse w
                \<lparr>base_url = openai_base_url settings, api_key = openai_api_key settings,
                 model = openai_model settings, instructions = instruction,
                 input = parse_input video_title transcript\<rparr> = Inr (Some (PDict d)) \<and>
             map_of d ''recipeCategory'' = Some (PStr (recipeCategory b)) \<and>
             (\<forall>c. BaseRecipe_validate ((''recipeCategory'', PStr c) # d)
                    = Some (b\<lparr>recipeCategory := c\<rparr>))"
proof -
  let ?req = "\<lparr>base_url = openai_base_url settings, api_key = openai_api_key settings,
                 model = openai_model settings, instructions = instruction,
                 input = parse_input video_title transcript\<rparr>"
  from assms obtain out where
    out: "responses_parse w ?req = Inr (Some out)"
    and val: "model_validate BaseRecipe_validate out = Some b"
    by (auto simp add: extract_recipe_def Let_def split: sum.splits option.splits)
  from val obtain d where d: "out = PDict d" "BaseRecipe_validate d = Some b"
    by (cases out) simp_all
  from out d BaseRecipe_validate_category [OF d(2)] BaseRecipe_validate_any_category [OF d(2)]
  show ?thesis by simp
qed

theorem category_is_any_text_witness:
  "snd (extract_recipe example_settings soup_world ''Fried Onion Recipe'' ''x'')
     = Some (example_base_recipe ''soup'') \<and>
   (\<exists>d. responses_parse soup_world
          \<lparr>base_url = openai_base_url example_settings,
           api_key = openai_api_key example_settings,
           model = openai_model example_settings, instructions = instruction,
           input = parse_input ''Fried Onion Recipe'' ''x''\<rparr> = Inr (Some (PDict d)) \<and>
        map_of d ''recipeCategory'' = Some (PStr ''soup'') \<and>
        (\<forall>c. BaseRecipe_validate ((''recipeCategory'', PStr c) # d)
               = Some (example_base_recipe c)))"
proof -
  have h: "snd (extract_recipe example_settings soup_world ''Fried Onion Recipe'' ''x'')
             = Some (example_base_recipe ''soup'')"
    by (simp add: soup_extract_recipe)
  have c: "recipeCategory (example_base_recipe ''soup'') = ''soup''"
    by (simp add: example_base_recipe_def)
  have u: "(example_base_recipe ''soup'')\<lparr>recipeCategory := c\<rparr> = example_base_recipe c" for c
    by (simp add: example_base_recipe_def)
  from h category_is_any_text [OF h] c u show ?thesis by simp
qed

text \<open>
  The language model answers with the category \<open>soup\<close>: the extractor accepts the recipe.
\<close>

theorem category_outside_enumeration:
  "responses_parse soup_world (example_request ''x'') = Inr (Some (example_output ''soup'')) \<and>
   extract_recipe example_settings soup_world ''Fried Onion Recipe'' ''x'' =
     ([ResponsesParse (example_request ''x'')], Some (example_base_recipe ''soup'')) \<and>
   recipeCategory (example_base_recipe ''soup'') = ''soup'' \<and>
   ''soup'' \<notin> set recipe_categories"
  by (simp add: soup_extract_recipe)
     (simp add: soup_world_def example_base_recipe_def recipe_categories_def)

text \<open>
  Claim C5, as the code has it. If the transcript fetch raises, the run ends after the
  caption-retrieval call with two printed lines, the logged error and the failure message:
  neither the video-metadata fetcher nor the language model is called, and no JSON is
  printed. A fetch that returns no entries is not such a case, as the run shown after
  the theorem tells.
\<close>

theorem transcript_raises_stops:
  assumes "transcript_fetch w (video_id settings) (preferred_languages_list settings @ [''en''])
             = Inl e"
  shows "main settings w =
           [Fetch (video_id settings) (preferred_languages_list settings @ [''en'']),
            PrintExn ''Error fetching transcript: '' e,
            Print ''Failed to retrieve transcript.'']"
  using assms by (simp add: main_def get_transcript_def Let_def)

theorem transcript_raises_stops_witness:
  "transcript_fetch no_captions_world (video_id example_settings)
      (preferred_languages_list example_settings @ [''en'']) = Inl (Exception ''no captions'') \<and>
   main example_settings no_captions_world =
     [Fetch ''abc123'' [''ko'', ''en''],
      PrintExn ''Error fetching transcript: '' (Exception ''no captions''),
      Print ''Failed to retrieve transcript.'']"
proof -
  have h: "transcript_fetch no_captions_world (video_id example_settings)
             (preferred_languages_list example_settings @ [''en'']) = Inl (Exception ''no captions'')"
    by (simp add: no_captions_world_def example_world_def)
  have v: "video_id example_settings = ''abc123''"
    by (simp add: example_defs)
  from h transcript_raises_stops [OF h] show ?thesis
    by (simp add: languages_default v)
qed

text \<open>
  The caption track holds no entry: the transcript is the empty text, and the run goes on
  to the video metadata, the language model and the JSON output.
\<close>

theorem empty_transcript_continues:
  "transcript_fetch no_entries_world ''abc123'' [''ko'', ''en''] = Inr [] \<and>
   main example_settings no_entries_world =
     [Fetch ''abc123'' [''ko'', ''en''],
      ExtractInfo ''https://www.youtube.com/watch?v=abc123'',
      ResponsesParse (example_request ''''),
      Print (model_dump_json (example_recipe ''side dish''))]"
  by (simp add: no_entries_main) (simp add: no_entries_world_def)

text \<open>
  Claim C6. In a run in which the metadata fetch raises, the fetcher catches the exception,
  prints a line that names it and returns no result; the run then prints the failure
  message and ends, without a call of the language model.
\<close>

theorem metadata_raises_stops:
  assumes "transcript_fetch w (video_id settings) (preferred_languages_list settings @ [''en''])
             = Inr es"
    and "extract_info w (watch_url (video_id settings)) = Inl e"
  shows "get_video_info w (video_id settings) =
           ([ExtractInfo (watch_url (video_id settings)),
             PrintExn ''Error fetching video info: '' e], None) \<and>
         main settings w =
           [Fetch (video_id settings) (preferred_languages_list settings @ [''en'']),
            ExtractInfo (watch_url (video_id settings)),
            PrintExn ''Error fetching video info: '' e,
            Print ''Failed to retrieve video information.'']"
  using assms by (simp add: main_def get_transcript_def get_video_info_def Let_def)

theorem metadata_raises_stops_witness:
  "transcript_fetch private_video_world (video_id example_settings)
      (preferred_languages_list example_settings @ [''en'']) = Inr example_entries \<and>
   extract_info private_video_world (watch_url (video_id example_settings))
      = Inl (Exception ''Private video'') \<and>
   get_video_info private_video_world ''abc123'' =
     ([ExtractInfo ''https://www.youtube.com/watch?v=abc123'',
       PrintExn ''Error fetching video info: '' (Exception ''Private video'')], None) \<and>
   main example_settings private_video_world =
     [Fetch ''abc123'' [''ko'', ''en''],
      ExtractInfo ''https://www.youtube.com/watch?v=abc123'',
      PrintExn ''Error fetching video info: '' (Exception ''Private video''),
      Print ''Failed to retrieve video information.'']"
proof -
  have h1: "transcript_fetch private_video_world (video_id example_settings)
      (preferred_languages_list example_settings @ [''en'']) = Inr example_entries"
    by (simp add: private_video_world_def example_world_def)
  have h2: "extract_info private_video_world
      (watch_url (video_id example_settings))
      = Inl (Exception ''Private video'')"
    by (simp add: private_video_world_def example_world_def)
  have v: "video_id example_settings = ''abc123''"
    by (simp add: example_defs)
  from h1 h2 metadata_raises_stops [OF h1 h2] show ?thesis
    by (simp add: languages_default v watch_url_def)
qed

text \<open>
  Claim C7. For every preferred-languages setting \<open>s\<close>, a run makes one
  caption-retrieval call, and the language list it passes is the list of the pieces of
  \<open>s\<close> between commas, each trimmed of whitespace, in order, with one \<open>"en"\<close> appended
  at the end.
\<close>

theorem languages_passed:
  "fetch_languages (main settings w) =
     [map trimmed (comma_pieces (preferred_languages settings)) @ [''en'']]"
  by (simp add: fetch_languages_main preferred_languages_list_spec)

text \<open>
  Claim C8. Let the video service answer with an info dictionary. When it gives each of
  title, uploader and thumbnail as text or not at all, the fetcher returns a video info.
  And whenever the fetcher returns a video info, each of its three fields is the text the
  service gave, or the empty text where there is none; in particular a field the service
  omits is empty.
\<close>

theorem video_info_defaults:
  assumes "extract_info w (watch_url vid) = Inr (Some info)"
  shows "(info_typed info \<longrightarrow>
            (\<exists>v. get_video_info w vid = ([ExtractInfo (watch_url vid)], Some v))) \<and>
         (\<forall>ev v. get_video_info w vid = (ev, Some v) \<longrightarrow>
            title v = field_text info ''title'' \<and>
            author v = field_text info ''uploader'' \<and>
            thumbnail_url v = field_text info ''thumbnail'' \<and>
            (map_of info ''title'' = None \<longrightarrow> title v = '''') \<and>
            (map_of info ''uploader'' = None \<longrightarrow> author v = '''') \<and>
            (map_of info ''thumbnail'' = None \<longrightarrow> thumbnail_url v = ''''))"
proof (intro conjI allI impI)
  assume "info_typed info"
  with assms show "\<exists>v. get_video_info w vid = ([ExtractInfo (watch_url vid)], Some v)"
    by (rule get_video_info_typed)
next
  fix ev v
  assume g: "get_video_info w vid = (ev, Some v)"
  note f = get_video_info_Some [OF assms g]
  from f show "title v = field_text info ''title''" by simp
  from f show "author v = field_text info ''uploader''" by simp
  from f show "thumbnail_url v = field_text info ''thumbnail''" by simp
  { assume "map_of info ''title'' = None"
    with f show "title v = ''''" by (simp add: field_text_def) }
  { assume "map_of info ''uploader'' = None"
    with f show "author v = ''''" by (simp add: field_text_def) }
  { assume "map_of info ''thumbnail'' = None"
    with f show "thumbnail_url v = ''''" by (simp add: field_text_def) }
qed

theorem video_info_defaults_witness:
  "extract_info sparse_info_world (watch_url ''abc123'') = Inr (Some sparse_info) \<and>
   info_typed sparse_info \<and>
   map_of sparse_info ''uploader'' = None \<and>
   get_video_info sparse_info_world ''abc123'' =
     ([ExtractInfo ''https://www.youtube.com/watch?v=abc123''],
      Some \<lparr>title = ''Fried Onion Recipe'', author = '''', thumbnail_url = ''''\<rparr>)"
proof -
  have h: "extract_info sparse_info_world (watch_url ''abc123'') = Inr (Some sparse_info)"
    by (simp add: sparse_info_world_def example_world_def)
  have ty: "info_typed sparse_info"
    by (simp add: info_typed_def sparse_info_def)
  have up: "map_of sparse_info ''uploader'' = None"
    by (simp add: sparse_info_def)
  note inst = video_info_defaults [OF h]
  from inst ty obtain v where
    v: "get_video_info sparse_info_world ''abc123'' = ([ExtractInfo (watch_url ''abc123'')], Some v)"
    by blast
  with inst have "title v = field_text sparse_info ''title'' \<and>
      author v = field_text sparse_info ''uploader'' \<and>
      thumbnail_url v = field_text sparse_info ''thumbnail''"
    by blast
  then have "v = \<lparr>title = ''Fried Onion Recipe'', author = '''', thumbnail_url = ''''\<rparr>"
    by (cases v) (simp add: field_text_def sparse_info_def)
  with h ty up v show ?thesis
    by (simp add: watch_url_def)
qed

text \<open>
  Claim C9. When the preferred-languages setting is the empty string, the derived list is
  the one-element list of the empty string, and the caption-retrieval call gets the
  languages \<open>["", "en"]\<close>.
\<close>

theorem empty_setting_languages:
  "preferred_languages_list (settings\<lparr>preferred_languages := ''''\<rparr>) = [''''] \<and>
   fetch_languages (main (settings\<lparr>preferred_languages := ''''\<rparr>) w) = [['''', ''en'']]"
  by (simp add: fetch_languages_main preferred_languages_list_def str_split_def
      str_strip_def str_lstrip_def str_rstrip_def)

text \<open>
  Claim C10. The metadata fetcher returns no result in two cases: when the service returns
  a null info object, and then the call is its whole trace, no line is printed; and when
  the call raises, and then it prints the error line.
\<close>

theorem null_info_is_absent:
  "(extract_info w (watch_url vid) = Inr None \<longrightarrow>
      get_video_info w vid = ([ExtractInfo (watch_url vid)], None)) \<and>
   (extract_info w (watch_url vid) = Inl e \<longrightarrow>
      get_video_info w vid =
        ([ExtractInfo (watch_url vid),
          PrintExn ''Error fetching video info: '' e], None))"
  by (simp add: get_video_info_def Let_def)

theorem null_info_is_absent_witness:
  "extract_info null_info_world ''https://www.youtube.com/watch?v=abc123'' = Inr None \<and>
   get_video_info null_info_world ''abc123'' =
     ([ExtractInfo ''https://www.youtube.com/watch?v=abc123''], None) \<and>
   extract_info private_video_world ''https://www.youtube.com/watch?v=abc123''
     = Inl (Exception ''Private video'') \<and>
   get_video_info private_video_world ''abc123'' =
     ([ExtractInfo ''https://www.youtube.com/watch?v=abc123'',
       PrintExn ''Error fetching video info: '' (Exception ''Private video'')], None)"
proof -
  have h1: "extract_info null_info_world (watch_url ''abc123'') = Inr None"
    by (simp add: null_info_world_def example_world_def)
  have h2: "extract_info private_video_world (watch_url ''abc123'')
              = Inl (Exception ''Private video'')"
    by (simp add: private_video_world_def example_world_def)
  from h1 h2 null_info_is_absent [of null_info_world "''abc123''" "Exception ''x''"]
    null_info_is_absent [of private_video_world "''abc123''" "Exception ''Private video''"]
  show ?thesis by (simp add: watch_url_def)
qed

end
